theory Spec2Isabelle
  imports Main
begin

section \<open>Python values\<close>

text \<open>
  A Python \<open>str\<close> is a sequence of Unicode code points; it is modelled as the list of
  these code points. The literals of \<^verbatim>\<open>streamlit_app.py\<close> that are not plain ASCII
  (Japanese text, emoji) are written out as code point lists, the ASCII ones through
  \<open>of_ascii\<close>.
\<close>

type_synonym pystr = "nat list"

definition of_ascii :: "string \<Rightarrow> pystr" where
  "of_ascii s = map of_char s"

text \<open>\<open>str(n)\<close> for a non-negative integer, as an f-string renders \<open>{i}\<close> and \<open>{len(xs)}\<close>.\<close>

function str_nat :: "nat \<Rightarrow> pystr" where
  "str_nat n = (if n < 10 then [48 + n] else str_nat (n div 10) @ [48 + n mod 10])"
  by pat_completeness auto
termination
  by (relation "measure id") auto

declare str_nat.simps [simp del]

text \<open>\<open>sep.join(xs)\<close>.\<close>

fun join :: "pystr \<Rightarrow> pystr list \<Rightarrow> pystr" where
  "join sep [] = []"
| "join sep [x] = x"
| "join sep (x # y # ys) = x @ sep @ join sep (y # ys)"

text \<open>\<open>s.endswith(suf)\<close> and the substring test \<open>needle in hay\<close>.\<close>

definition endswith :: "pystr \<Rightarrow> pystr \<Rightarrow> bool" where
  "endswith s suf \<longleftrightarrow> length suf \<le> length s \<and> drop (length s - length suf) s = suf"

fun py_in :: "pystr \<Rightarrow> pystr \<Rightarrow> bool" where
  "py_in needle [] \<longleftrightarrow> needle = []"
| "py_in needle (c # cs) \<longleftrightarrow> take (length needle) (c # cs) = needle \<or> py_in needle cs"

text \<open>
  An exception object, an instance of Python's \<open>Exception\<close>, with the text \<open>str(e)\<close> that
  the handlers of the program print. Every \<open>except Exception\<close> clause of the program
  catches it. The interpreter's exit signals (\<open>KeyboardInterrupt\<close>, \<open>SystemExit\<close>), which
  are not instances of \<open>Exception\<close>, are not modelled.
\<close>

datatype exn = Exception (exn_str: pystr)

section \<open>The regular expression of the language check\<close>

text \<open>The character class \<open>[a-zA-Z]\<close> of a \<open>str\<close> pattern without flags.\<close>

definition is_ascii_letter :: "nat \<Rightarrow> bool" where
  "is_ascii_letter c \<longleftrightarrow> (97 \<le> c \<and> c \<le> 122) \<or> (65 \<le> c \<and> c \<le> 90)"

text \<open>
  \<open>re.findall(r'[a-zA-Z]{3,}', text)\<close>: the scan tries a match at the current position;
  the greedy quantifier takes every letter that follows, and the match succeeds when
  there are at least three. After a match the scan resumes behind it, after a failure
  one character further.
\<close>

function findall_english :: "pystr \<Rightarrow> pystr list" where
  "findall_english [] = []"
| "findall_english (c # cs) =
     (if 3 \<le> length (takeWhile is_ascii_letter (c # cs))
      then takeWhile is_ascii_letter (c # cs)
             # findall_english (dropWhile is_ascii_letter (c # cs))
      else findall_english cs)"
  by pat_completeness auto
termination
  by (relation "measure length") (auto simp: length_dropWhile_le le_imp_less_Suc split: if_splits)


section \<open>String literals of the program\<close>

text \<open>Line 42: the default folder; line 66: the extension that selects the files.\<close>

definition default_pdf_folder :: pystr where
  "default_pdf_folder = of_ascii ''pdfs''"

definition dot_pdf :: pystr where
  "dot_pdf = of_ascii ''.pdf''"

text \<open>Lines 62 to 95: the messages of \<open>load_pdfs_with_react\<close>.\<close>

definition msg_folder_not_found :: pystr where
  "msg_folder_not_found =
    [10060, 32, 12501, 12457, 12523, 12480, 12364, 35211, 12388, 12363, 12426, 12414,
     12379, 12435, 58, 32]"

definition msg_no_pdf_files :: pystr where
  "msg_no_pdf_files =
    [10060, 32, 80, 68, 70, 12501, 12449, 12452, 12523, 12364, 35211, 12388, 12363,
     12426, 12414, 12379, 12435]"

definition msg_found_pre :: pystr where
  "msg_found_pre =
    [128218, 32]"

definition msg_found_post :: pystr where
  "msg_found_post =
    [20491, 12398, 80, 68, 70, 12501, 12449, 12452, 12523, 12434, 30330, 35211, 58]"

definition msg_bullet :: pystr where
  "msg_bullet =
    [32, 32, 8226, 32]"

definition msg_loading_pdfs :: pystr where
  "msg_loading_pdfs =
    [128196, 32, 80, 68, 70, 12501, 12449, 12452, 12523, 12434, 35501, 12415, 36796,
     12415, 20013, 46, 46, 46]"

definition msg_loaded_pre :: pystr where
  "msg_loaded_pre =
    [9989, 32]"

definition msg_loaded_post :: pystr where
  "msg_loaded_post =
    [20491, 12398, 12489, 12461, 12517, 12513, 12531, 12488, 12434, 35501, 12415,
     36796, 12415, 23436, 20102]"

definition msg_building_index :: pystr where
  "msg_building_index =
    [128260, 32, 12505, 12463, 12488, 12523, 12452, 12531, 12487, 12483, 12463,
     12473, 20316, 25104, 20013, 46, 46, 46]"

definition msg_index_done :: pystr where
  "msg_index_done =
    [9989, 32, 12452, 12531, 12487, 12483, 12463, 12473, 20316, 25104, 23436, 20102]"

definition msg_error_pre :: pystr where
  "msg_error_pre =
    [10060, 32, 12456, 12521, 12540, 58, 32]"

text \<open>Lines 102 to 160: the messages of \<open>_create_react_agent\<close>.\<close>

definition msg_index_missing :: pystr where
  "msg_index_missing =
    [10060, 32, 12452, 12531, 12487, 12483, 12463, 12473, 12364, 20316, 25104, 12373,
     12428, 12390, 12356, 12414, 12379, 12435]"

definition msg_engine_ready :: pystr where
  "msg_engine_ready =
    [9989, 32, 12463, 12456, 12522, 12456, 12531, 12472, 12531, 28310, 20633, 23436,
     20102]"

definition msg_basic_engine_ready :: pystr where
  "msg_basic_engine_ready =
    [9989, 32, 22522, 26412, 12463, 12456, 12522, 12456, 12531, 12472, 12531, 28310,
     20633, 23436, 20102]"

definition msg_agent_ready :: pystr where
  "msg_agent_ready =
    [9989, 32, 82, 101, 65, 99, 116, 12456, 12540, 12472, 12455, 12531, 12488, 28310,
     20633, 23436, 20102]"

definition msg_agent_error_pre :: pystr where
  "msg_agent_error_pre =
    [10060, 32, 82, 101, 65, 99, 116, 12456, 12540, 12472, 12455, 12531, 12488,
     20316, 25104, 12456, 12521, 12540, 58, 32]"

definition msg_detail_error_pre :: pystr where
  "msg_detail_error_pre =
    [35443, 32048, 12456, 12521, 12540, 58, 32]"

text \<open>Line 170: the entries of \<open>japanese_exceptions\<close>.\<close>

definition exc_pdf :: pystr where
  "exc_pdf = of_ascii ''pdf''"

definition exc_PDF :: pystr where
  "exc_PDF = of_ascii ''PDF''"

definition exc_au_commerce :: pystr where
  "exc_au_commerce =
    [97, 117, 12467, 12510, 12540, 12473]"

definition exc_au :: pystr where
  "exc_au = of_ascii ''au''"

definition exc_DC :: pystr where
  "exc_DC = of_ascii ''DC''"

definition exc_API :: pystr where
  "exc_API = of_ascii ''API''"

text \<open>
  Lines 182 to 196: the rewrite prompt around the embedded answer, the spinner label and
  the prefix of the warning.
\<close>

definition translate_prompt_pre :: pystr where
  "translate_prompt_pre =
    [20197, 19979, 12398, 25991, 31456, 12434, 33258, 28982, 12394, 26085, 26412,
     35486, 12395, 22793, 25563, 12375, 12390, 12367, 12384, 12373, 12356, 12290, 10,
     26082, 12395, 26085, 26412, 35486, 12398, 37096, 20998, 12399, 12381, 12398,
     12414, 12414, 20445, 25345, 12375, 12289, 33521, 35486, 12398, 37096, 20998,
     12398, 12415, 12434, 26085, 26412, 35486, 12395, 22793, 25563, 12375, 12390,
     12367, 12384, 12373, 12356, 12290, 10, 25216, 34899, 29992, 35486, 12420, 22266,
     26377, 21517, 35422, 12399, 36969, 20999, 12394, 26085, 26412, 35486, 34920,
     29694, 12395, 32622, 12365, 25563, 12360, 12390, 12367, 12384, 12373, 12356,
     12290, 10, 10, 20803, 12398, 25991, 31456, 58, 10]"

definition translate_prompt_post :: pystr where
  "translate_prompt_post =
    [10, 10, 33258, 28982, 12394, 26085, 26412, 35486, 12391, 12398, 34920, 29694, 58]"

definition msg_translating :: pystr where
  "msg_translating =
    [128260, 32, 26085, 26412, 35486, 12395, 22793, 25563, 20013, 46, 46, 46]"

definition msg_translate_error_pre :: pystr where
  "msg_translate_error_pre =
    [26085, 26412, 35486, 22793, 25563, 12456, 12521, 12540, 58, 32]"

text \<open>Lines 202 to 261: the messages of \<open>ask_with_react\<close> and \<open>_fallback_search\<close>.\<close>

definition msg_agent_uninitialized :: pystr where
  "msg_agent_uninitialized =
    [10060, 32, 12456, 12521, 12540, 58, 32, 12456, 12540, 12472, 12455, 12531,
     12488, 12364, 21021, 26399, 21270, 12373, 12428, 12390, 12356, 12414, 12379,
     12435, 12290, 80, 68, 70, 12501, 12449, 12452, 12523, 12398, 35501, 12415,
     36796, 12415, 12434, 34892, 12387, 12390, 12367, 12384, 12373, 12356, 12290]"

definition ret_agent_uninitialized :: pystr where
  "ret_agent_uninitialized =
    [12456, 12521, 12540, 58, 32, 12456, 12540, 12472, 12455, 12531, 12488, 12364,
     21021, 26399, 21270, 12373, 12428, 12390, 12356, 12414, 12379, 12435, 12290, 80,
     68, 70, 12501, 12449, 12452, 12523, 12398, 35501, 12415, 36796, 12415, 12508,
     12479, 12531, 12434, 25276, 12375, 12390, 12367, 12384, 12373, 12356, 12290]"

definition msg_analysing :: pystr where
  "msg_analysing =
    [129302, 32, 80, 68, 70, 26908, 32034, 12391, 20998, 26512, 20013, 46, 46, 46]"

definition sig_reached_max_iterations :: pystr where
  "sig_reached_max_iterations = of_ascii ''Reached max iterations''"

definition sig_max_iterations :: pystr where
  "sig_max_iterations = of_ascii ''max_iterations''"

definition msg_react_slow :: pystr where
  "msg_react_slow =
    [9888, 65039, 32, 82, 101, 65, 99, 116, 12398, 20966, 29702, 26178, 38291, 12364,
     38263, 12356, 12383, 12417, 12289, 30452, 25509, 26908, 32034, 12391, 22238,
     31572, 12375, 12414, 12377, 46, 46, 46]"

definition msg_error_occurred_pre :: pystr where
  "msg_error_occurred_pre =
    [9888, 65039, 32, 12456, 12521, 12540, 12364, 30330, 29983, 12375, 12414, 12375,
     12383, 58, 32]"

definition direct_search_marker :: pystr where
  "direct_search_marker =
    [12304, 30452, 25509, 26908, 32034, 12395, 12424, 12427, 22238, 31572, 12305]"

definition msg_search_error_pre :: pystr where
  "msg_search_error_pre =
    [10060, 32, 26908, 32034, 12456, 12521, 12540, 58, 32]"

text \<open>Lines 271 to 293: the pieces of the citation block of \<open>_get_source_info\<close>.\<close>

definition msg_no_sources :: pystr where
  "msg_no_sources =
    [128218, 32, 12304, 20986, 20856, 24773, 22577, 12305, 21442, 32771, 25991,
     26360, 12364, 35211, 12388, 12363, 12426, 12414, 12379, 12435, 12391, 12375,
     12383, 12290]"

definition key_file_name :: pystr where
  "key_file_name = of_ascii ''file_name''"

definition unknown_document :: pystr where
  "unknown_document =
    [19981, 26126, 12394, 25991, 26360]"

definition key_page_label :: pystr where
  "key_page_label = of_ascii ''page_label''"

definition rank_sep :: pystr where
  "rank_sep = of_ascii ''. ''"

definition page_pre :: pystr where
  "page_pre =
    [32, 40, 12506, 12540, 12472, 58, 32]"

definition page_post :: pystr where
  "page_post = of_ascii '')''"

definition relevance_pre :: pystr where
  "relevance_pre =
    [32, 45, 32, 38306, 36899, 24230, 58, 32]"

definition sources_header :: pystr where
  "sources_header =
    [128218, 32, 12304, 21442, 32771, 25991, 26360, 12539, 20986, 20856, 24773,
     22577, 12305, 10]"

definition msg_source_error_pre :: pystr where
  "msg_source_error_pre =
    [128218, 32, 12304, 20986, 20856, 24773, 22577, 21462, 24471, 12456, 12521,
     12540, 12305]"

text \<open>Lines 339 to 392: the messages of \<open>main\<close>.\<close>

definition msg_please_initialise :: pystr where
  "msg_please_initialise =
    [128193, 32, 80, 68, 70, 12501, 12449, 12452, 12523, 12434, 35501, 12415, 36796,
     12435, 12391, 12481, 12515, 12483, 12488, 12508, 12483, 12488, 12434, 21021,
     26399, 21270, 12375, 12390, 12367, 12384, 12373, 12356]"




text \<open>
  The text of the \<open>AttributeError\<close> that Python raises for \<open>None.as_query_engine\<close> and
  \<open>None.as_retriever\<close>.
\<close>

definition attr_err_as_query_engine :: pystr where
  "attr_err_as_query_engine =
    [39, 78, 111, 110, 101, 84, 121, 112, 101, 39, 32, 111, 98, 106, 101, 99, 116,
     32, 104, 97, 115, 32, 110, 111, 32, 97, 116, 116, 114, 105, 98, 117, 116, 101,
     32, 39, 97, 115, 95, 113, 117, 101, 114, 121, 95, 101, 110, 103, 105, 110, 101,
     39]"

definition attr_err_as_retriever :: pystr where
  "attr_err_as_retriever =
    [39, 78, 111, 110, 101, 84, 121, 112, 101, 39, 32, 111, 98, 106, 101, 99, 116,
     32, 104, 97, 115, 32, 110, 111, 32, 97, 116, 116, 114, 105, 98, 117, 116, 101,
     32, 39, 97, 115, 95, 114, 101, 116, 114, 105, 101, 118, 101, 114, 39]"



section \<open>The world outside the program\<close>

text \<open>
  The two prompt templates the program builds (lines 106 and 233); only their identity
  matters to the calls that receive them.
\<close>

datatype template = JapaneseTemplate | JapaneseFallbackTemplate

text \<open>
  Modelled from the spec: the type of a retrieved node (\<open>NodeWithScore\<close> of the retrieval
  library) is not part of the source. The record keeps what \<open>_get_source_info\<close> reads: the
  metadata dictionary, with text values, and the score attribute, \<open>None\<close> when
  \<open>hasattr(node, 'score')\<close> is false and a number of type \<open>'f\<close> otherwise (the relevance
  score of the data model).
\<close>

record 'f node =
  metadata :: "pystr \<rightharpoonup> pystr"
  score :: "'f option"

text \<open>
  The object reached as \<open>agent.memory\<close> by the history-clear action: which of the three
  attributes it has, and whether using one raises.
\<close>

record memory_obj =
  has_reset :: bool
  reset_call :: "exn option"
  has_clear :: bool
  clear_call :: "exn option"
  has_chat_history :: bool
  set_chat_history :: "exn option"

text \<open>
  What the program sees and does outside itself, in the order of time. The \<open>St\<close> events
  are the calls to the user interface, the \<open>Call\<close> events the calls to the file system,
  the retrieval library and the language model.
\<close>

datatype event =
    StError pystr
  | StWarning pystr
  | StSuccess pystr
  | StInfo pystr
  | StWrite pystr
  | StSpinner pystr
  | StSidebarWarning nat nat
  | StSidebarSuccess pystr
  | StRerun
  | CallListdir pystr
  | CallLoadData pystr
  | CallFromDocuments nat
  | CallAsQueryEngine nat template
  | CallChatMemory nat
  | CallQuery pystr
  | CallRetrieve nat pystr
  | CallLlmComplete pystr
  | CallAgentMemory
  | CallMemoryReset
  | CallMemoryClear
  | CallSetChatHistory

text \<open>
  The answers of the outside world during one action of the user. A call of a library
  either returns (\<open>Inr\<close>) or raises (\<open>Inl\<close>). The types \<open>'d\<close>, \<open>'i\<close> and \<open>'e\<close> are the
  library's documents, index and query engine.

  \<^item> \<open>path_exists\<close>, \<open>listdir\<close>: \<open>os.path.exists\<close>, \<open>os.listdir\<close>;
  \<^item> \<open>load_data\<close>: \<open>SimpleDirectoryReader(input_dir=folder).load_data()\<close>;
  \<^item> \<open>from_documents\<close>: \<open>VectorStoreIndex.from_documents\<close>;
  \<^item> \<open>as_query_engine idx k t\<close>: \<open>idx.as_query_engine(similarity_top_k=k,
    response_mode="compact", text_qa_template=t)\<close>;
  \<^item> \<open>chat_memory_from_defaults n\<close>: \<open>ChatMemoryBuffer.from_defaults(token_limit=n)\<close>,
    whose result the program drops;
  \<^item> \<open>simple_chat_engine_importable\<close>: whether the import of line 144 succeeds;
  \<^item> \<open>format_exc\<close>: \<open>traceback.format_exc()\<close> in a handler;
  \<^item> \<open>engine_query eng q\<close>: \<open>str(eng.query(q))\<close>;
  \<^item> \<open>retrieve idx k q\<close>: \<open>idx.as_retriever(similarity_top_k=k).retrieve(q)\<close>;
  \<^item> \<open>format_3f\<close>: the format specification \<open>.3f\<close> applied to a score;
  \<^item> \<open>llm_complete p\<close>: \<open>str(Settings.llm.complete(p))\<close>;
  \<^item> \<open>agent_memory eng\<close>: the attribute access \<open>eng.memory\<close>.
\<close>

record ('d, 'i, 'e, 'f) env =
  path_exists :: "pystr \<Rightarrow> bool"
  listdir :: "pystr \<Rightarrow> exn + pystr list"
  load_data :: "pystr \<Rightarrow> exn + 'd list"
  from_documents :: "'d list \<Rightarrow> exn + 'i"
  as_query_engine :: "'i \<Rightarrow> nat \<Rightarrow> template \<Rightarrow> exn + 'e"
  chat_memory_from_defaults :: "nat \<Rightarrow> exn option"
  simple_chat_engine_importable :: bool
  format_exc :: "exn \<Rightarrow> pystr"
  engine_query :: "'e \<Rightarrow> pystr \<Rightarrow> exn + pystr"
  retrieve :: "'i \<Rightarrow> nat \<Rightarrow> pystr \<Rightarrow> exn + 'f node list"
  format_3f :: "'f \<Rightarrow> pystr"
  llm_complete :: "pystr \<Rightarrow> exn + pystr"
  agent_memory :: "'e \<Rightarrow> exn + memory_obj"

section \<open>The class \<open>StreamlitReActChatBot\<close>\<close>

text \<open>The fields of the object; \<open>None\<close> is Python's \<open>None\<close>, the only falsy value they take.\<close>

record ('i, 'e) chatbot =
  pdf_folder :: pystr
  agent :: "'e option"
  index :: "'i option"

text \<open>\<open>__init__\<close> (lines 42 to 45).\<close>

definition init_chatbot :: "pystr \<Rightarrow> ('i, 'e) chatbot" where
  "init_chatbot folder = \<lparr>pdf_folder = folder, agent = None, index = None\<rparr>"

text \<open>
  \<open>_create_react_agent\<close> (lines 98 to 161). The result is the returned flag, the object
  after the call and the events of the call. Both branches of the inner \<open>try\<close> assign the
  query engine to \<open>self.agent\<close>; they differ in the message.
\<close>

definition create_agent_failure :: "('d, 'i, 'e, 'f) env \<Rightarrow> exn \<Rightarrow> event list" where
  "create_agent_failure env e =
     [StError (msg_agent_error_pre @ exn_str e),
      StError (msg_detail_error_pre @ format_exc env e)]"

definition create_react_agent ::
  "('d, 'i, 'e, 'f) env \<Rightarrow> ('i, 'e) chatbot \<Rightarrow> bool \<times> ('i, 'e) chatbot \<times> event list" where
  "create_react_agent env self =
     (case index self of
        None \<Rightarrow> (False, self, [StError msg_index_missing])
      | Some idx \<Rightarrow>
          (case as_query_engine env idx 3 JapaneseTemplate of
             Inl e \<Rightarrow>
               (False, self, CallAsQueryEngine 3 JapaneseTemplate # create_agent_failure env e)
           | Inr query_engine \<Rightarrow>
               (case chat_memory_from_defaults env 1500 of
                  Some e \<Rightarrow>
                    (False, self,
                     [CallAsQueryEngine 3 JapaneseTemplate, CallChatMemory 1500]
                       @ create_agent_failure env e)
                | None \<Rightarrow>
                    (True, self\<lparr>agent := Some query_engine\<rparr>,
                     [CallAsQueryEngine 3 JapaneseTemplate, CallChatMemory 1500,
                      StSuccess (if simple_chat_engine_importable env
                                 then msg_engine_ready else msg_basic_engine_ready),
                      StSuccess msg_agent_ready]))))"

text \<open>\<open>load_pdfs_with_react\<close> (lines 58 to 96).\<close>

definition load_pdfs_with_react ::
  "('d, 'i, 'e, 'f) env \<Rightarrow> ('i, 'e) chatbot \<Rightarrow> bool \<times> ('i, 'e) chatbot \<times> event list" where
  "load_pdfs_with_react env self =
     (if \<not> path_exists env (pdf_folder self)
      then (False, self, [StError (msg_folder_not_found @ pdf_folder self)])
      else
        (case listdir env (pdf_folder self) of
           Inl e \<Rightarrow>
             (False, self, [CallListdir (pdf_folder self), StError (msg_error_pre @ exn_str e)])
         | Inr files \<Rightarrow>
             (let pdf_files = filter (\<lambda>f. endswith f dot_pdf) files;
                  evs0 = [CallListdir (pdf_folder self)] in
              if pdf_files = [] then (False, self, evs0 @ [StError msg_no_pdf_files])
              else
                (let evs1 = evs0
                       @ [StSuccess (msg_found_pre @ str_nat (length pdf_files) @ msg_found_post)]
                       @ map (\<lambda>pdf_file. StWrite (msg_bullet @ pdf_file)) pdf_files
                       @ [StSpinner msg_loading_pdfs, CallLoadData (pdf_folder self)] in
                 case load_data env (pdf_folder self) of
                   Inl e \<Rightarrow> (False, self, evs1 @ [StError (msg_error_pre @ exn_str e)])
                 | Inr documents \<Rightarrow>
                     (let evs2 = evs1
                            @ [StSuccess
                                 (msg_loaded_pre @ str_nat (length documents) @ msg_loaded_post),
                               StSpinner msg_building_index,
                               CallFromDocuments (length documents)] in
                      case from_documents env documents of
                        Inl e \<Rightarrow> (False, self, evs2 @ [StError (msg_error_pre @ exn_str e)])
                      | Inr idx \<Rightarrow>
                          (case create_react_agent env (self\<lparr>index := Some idx\<rparr>) of
                             (ok, self', evs3) \<Rightarrow>
                               (ok, self', evs2 @ [StSuccess msg_index_done] @ evs3)))))))"

text \<open>\<open>_contains_english\<close> (lines 163 to 173).\<close>

definition japanese_exceptions :: "pystr list" where
  "japanese_exceptions = [exc_pdf, exc_PDF, exc_au_commerce, exc_au, exc_DC, exc_API]"

definition contains_english :: "pystr \<Rightarrow> bool" where
  "contains_english text =
     (let english_matches = findall_english text;
          filtered_matches = filter (\<lambda>m. m \<notin> set japanese_exceptions) english_matches
      in length filtered_matches > 0)"

text \<open>\<open>_force_japanese_response\<close> (lines 175 to 197): the answer returned and the events.\<close>

definition translate_prompt :: "pystr \<Rightarrow> pystr" where
  "translate_prompt response = translate_prompt_pre @ response @ translate_prompt_post"

definition force_japanese_response ::
  "('d, 'i, 'e, 'f) env \<Rightarrow> pystr \<Rightarrow> pystr \<times> event list" where
  "force_japanese_response env response =
     (if \<not> contains_english response then (response, [])
      else
        (case llm_complete env (translate_prompt response) of
           Inr japanese_response \<Rightarrow>
             (japanese_response,
              [StSpinner msg_translating, CallLlmComplete (translate_prompt response)])
         | Inl e \<Rightarrow>
             (response,
              [StSpinner msg_translating, CallLlmComplete (translate_prompt response),
               StWarning (msg_translate_error_pre @ exn_str e)])))"

text \<open>\<open>_get_source_info\<close> (lines 263 to 293). \<open>source_line\<close> is the body of its loop.\<close>

definition source_line :: "('d, 'i, 'e, 'f) env \<Rightarrow> nat \<times> 'f node \<Rightarrow> pystr" where
  "source_line env p =
     (case p of (i, node) \<Rightarrow>
        (let file_name =
               (case metadata node key_file_name of None \<Rightarrow> unknown_document | Some v \<Rightarrow> v);
             page_info = (case metadata node key_page_label of None \<Rightarrow> [] | Some v \<Rightarrow> v);
             source_info =
               (if page_info \<noteq> []
                then str_nat i @ rank_sep @ file_name @ page_pre @ page_info @ page_post
                else str_nat i @ rank_sep @ file_name)
         in case score node of
              Some s \<Rightarrow> source_info @ relevance_pre @ format_3f env s
            | None \<Rightarrow> source_info))"

definition get_source_info ::
  "('d, 'i, 'e, 'f) env \<Rightarrow> ('i, 'e) chatbot \<Rightarrow> pystr \<Rightarrow> pystr \<times> event list" where
  "get_source_info env self question =
     (case index self of
        None \<Rightarrow> (msg_source_error_pre @ attr_err_as_retriever, [])
      | Some idx \<Rightarrow>
          (case retrieve env idx 3 question of
             Inl e \<Rightarrow> (msg_source_error_pre @ exn_str e, [CallRetrieve 3 question])
           | Inr nodes \<Rightarrow>
               (if nodes = [] then (msg_no_sources, [CallRetrieve 3 question])
                else
                  (sources_header @ join [10] (map (source_line env) (enumerate 1 nodes)),
                   [CallRetrieve 3 question]))))"

text \<open>\<open>_fallback_search\<close> (lines 229 to 261).\<close>

definition fallback_search ::
  "('d, 'i, 'e, 'f) env \<Rightarrow> ('i, 'e) chatbot \<Rightarrow> pystr \<Rightarrow> pystr \<times> event list" where
  "fallback_search env self question =
     (case index self of
        None \<Rightarrow> (msg_search_error_pre @ attr_err_as_query_engine, [])
      | Some idx \<Rightarrow>
          (case as_query_engine env idx 5 JapaneseFallbackTemplate of
             Inl e \<Rightarrow>
               (msg_search_error_pre @ exn_str e, [CallAsQueryEngine 5 JapaneseFallbackTemplate])
           | Inr fallback_engine \<Rightarrow>
               (case engine_query env fallback_engine question of
                  Inl e \<Rightarrow>
                    (msg_search_error_pre @ exn_str e,
                     [CallAsQueryEngine 5 JapaneseFallbackTemplate, CallQuery question])
                | Inr response \<Rightarrow>
                    (case force_japanese_response env response of
                       (japanese_response, evs1) \<Rightarrow>
                         (case get_source_info env self question of
                            (sources_info, evs2) \<Rightarrow>
                              (direct_search_marker @ [10] @ japanese_response @ [10, 10]
                                 @ sources_info,
                               [CallAsQueryEngine 5 JapaneseFallbackTemplate, CallQuery question]
                                 @ evs1 @ evs2))))))"

text \<open>\<open>ask_with_react\<close> (lines 199 to 227).\<close>

definition ask_with_react ::
  "('d, 'i, 'e, 'f) env \<Rightarrow> ('i, 'e) chatbot \<Rightarrow> pystr \<Rightarrow> pystr \<times> event list" where
  "ask_with_react env self question =
     (case agent self of
        None \<Rightarrow> (ret_agent_uninitialized, [StError msg_agent_uninitialized])
      | Some eng \<Rightarrow>
          (case engine_query env eng question of
             Inr response \<Rightarrow>
               (case force_japanese_response env response of
                  (japanese_response, evs1) \<Rightarrow>
                    (case get_source_info env self question of
                       (sources_info, evs2) \<Rightarrow>
                         (japanese_response @ [10, 10] @ sources_info,
                          [StSpinner msg_analysing, CallQuery question] @ evs1 @ evs2)))
           | Inl e \<Rightarrow>
               (let error_msg = exn_str e in
                if py_in sig_reached_max_iterations error_msg \<or> py_in sig_max_iterations error_msg
                then
                  (case fallback_search env self question of
                     (answer, evs) \<Rightarrow>
                       (answer,
                        [StSpinner msg_analysing, CallQuery question, StWarning msg_react_slow]
                          @ evs))
                else
                  (case fallback_search env self question of
                     (answer, evs) \<Rightarrow>
                       (answer,
                        [StSpinner msg_analysing, CallQuery question,
                         StError (msg_error_occurred_pre @ error_msg)] @ evs)))))"

section \<open>The page: \<open>main\<close>\<close>

text \<open>
  The session state of lines 328 to 335: the chatbot object, the list of messages (each a
  dictionary with the keys \<open>role\<close> and \<open>content\<close>) and the flag \<open>initialized\<close>.
\<close>

record message =
  role :: pystr
  content :: pystr

record ('i, 'e) session =
  chatbot :: "('i, 'e) chatbot"
  messages :: "message list"
  initialized :: bool

definition init_session :: "('i, 'e) session" where
  "init_session =
     \<lparr>chatbot = init_chatbot default_pdf_folder, messages = [], initialized = False\<rparr>"

text \<open>
  The initialization button (lines 338 to 344); it is drawn only while \<open>initialized\<close> is
  false.
\<close>

definition press_initialize ::
  "('d, 'i, 'e, 'f) env \<Rightarrow> ('i, 'e) session \<Rightarrow> ('i, 'e) session \<times> event list" where
  "press_initialize env s =
     (if \<not> initialized s then
        (case load_pdfs_with_react env (chatbot s) of
           (ok, self', evs) \<Rightarrow>
             (if ok then (s\<lparr>chatbot := self', initialized := True\<rparr>,
                          StInfo msg_please_initialise # evs @ [StRerun])
              else (s\<lparr>chatbot := self'\<rparr>, StInfo msg_please_initialise # evs)))
      else (s, []))"





section \<open>Sequences of calls on one object\<close>

text \<open>
  The calls that main makes on the chatbot object after its construction: the loading of
  the documents, a question, and the rebuilding of the engine by the history-clear
  action. Each call meets its own state of the outside world.
\<close>

datatype ('d, 'i, 'e, 'f) call =
    LoadPdfs "('d, 'i, 'e, 'f) env"
  | Ask "('d, 'i, 'e, 'f) env" pystr
  | Rebuild "('d, 'i, 'e, 'f) env"

fun apply_call :: "('d, 'i, 'e, 'f) call \<Rightarrow> ('i, 'e) chatbot \<Rightarrow> ('i, 'e) chatbot" where
  "apply_call (LoadPdfs env) self = fst (snd (load_pdfs_with_react env self))"
| "apply_call (Ask env question) self = self"
| "apply_call (Rebuild env) self = fst (snd (create_react_agent env self))"

fun run_calls :: "('d, 'i, 'e, 'f) call list \<Rightarrow> ('i, 'e) chatbot \<Rightarrow> ('i, 'e) chatbot" where
  "run_calls [] self = self"
| "run_calls (c # cs) self = run_calls cs (apply_call c self)"

section \<open>Notions of the specification\<close>

text \<open>
  A maximal run of ASCII letters of a text: \<open>run\<close> stands between \<open>pre\<close> and \<open>post\<close>, it
  is not empty and made of letters only, and no letter stands next to it on either side.
\<close>

definition maximal_run :: "pystr \<Rightarrow> pystr \<Rightarrow> pystr \<Rightarrow> bool" where
  "maximal_run pre run post \<longleftrightarrow>
     run \<noteq> [] \<and> list_all is_ascii_letter run
     \<and> (pre = [] \<or> \<not> is_ascii_letter (last pre))
     \<and> (post = [] \<or> \<not> is_ascii_letter (hd post))"

text \<open>The maximal runs of letters of a text from left to right, of any length.\<close>

function letter_runs :: "pystr \<Rightarrow> pystr list" where
  "letter_runs [] = []"
| "letter_runs (c # cs) =
     (if is_ascii_letter c
      then takeWhile is_ascii_letter (c # cs) # letter_runs (dropWhile is_ascii_letter cs)
      else letter_runs cs)"
  by pat_completeness auto
termination
  by (relation "measure length") (auto simp: length_dropWhile_le le_imp_less_Suc)

text \<open>The check of \<open>_contains_english\<close> with the allow-list cut down to three entries.\<close>

definition reduced_exceptions :: "pystr list" where
  "reduced_exceptions = [exc_pdf, exc_PDF, exc_API]"

definition contains_english_reduced :: "pystr \<Rightarrow> bool" where
  "contains_english_reduced text =
     (let english_matches = findall_english text;
          filtered_matches = filter (\<lambda>m. m \<notin> set reduced_exceptions) english_matches
      in length filtered_matches > 0)"

text \<open>The calls to the language model among the events of an action.\<close>

fun is_llm_call :: "event \<Rightarrow> bool" where
  "is_llm_call (CallLlmComplete p) = True"
| "is_llm_call ev = False"

text \<open>The calls to the outside world among the events, as opposed to the display.\<close>

fun is_call :: "event \<Rightarrow> bool" where
  "is_call (StError m) = False"
| "is_call (StWarning m) = False"
| "is_call (StSuccess m) = False"
| "is_call (StInfo m) = False"
| "is_call (StWrite m) = False"
| "is_call (StSpinner m) = False"
| "is_call (StSidebarWarning a b) = False"
| "is_call (StSidebarSuccess m) = False"
| "is_call StRerun = False"
| "is_call ev = True"

text \<open>
  A line of the citation block as the specification words it: the rank, the document
  name, then the page suffix when the metadata has a non-empty page label, then the
  relevance suffix when the node has a score.
\<close>

definition document_name :: "'f node \<Rightarrow> pystr" where
  "document_name node =
     (case metadata node key_file_name of None \<Rightarrow> unknown_document | Some v \<Rightarrow> v)"

definition page_suffix :: "'f node \<Rightarrow> pystr" where
  "page_suffix node =
     (case metadata node key_page_label of
        None \<Rightarrow> []
      | Some l \<Rightarrow> if l = [] then [] else page_pre @ l @ page_post)"

definition relevance_suffix :: "('d, 'i, 'e, 'f) env \<Rightarrow> 'f node \<Rightarrow> pystr" where
  "relevance_suffix env node =
     (case score node of None \<Rightarrow> [] | Some s \<Rightarrow> relevance_pre @ format_3f env s)"

definition citation_line :: "('d, 'i, 'e, 'f) env \<Rightarrow> nat \<Rightarrow> 'f node \<Rightarrow> pystr" where
  "citation_line env rank node =
     str_nat rank @ rank_sep @ document_name node @ page_suffix node
       @ relevance_suffix env node"






section \<open>Sample states of the outside world\<close>

text \<open>
  A folder with one PDF file and one other file, a loader that yields one document, an
  index that answers every question, a language model that answers every prompt, and a
  query engine without a \<open>memory\<close> attribute. Documents and scores stand for their text,
  the index for the number of its documents and an engine for its \<open>similarity_top_k\<close>.
\<close>

definition sample_answer :: pystr where
  "sample_answer = [31572, 12360] @ of_ascii '' PDF au''"

definition sample_nodes :: "pystr node list" where
  "sample_nodes =
     [\<lparr>metadata = [key_file_name \<mapsto> of_ascii ''a.pdf'', key_page_label \<mapsto> of_ascii ''7''],
       score = Some (of_ascii ''0.812'')\<rparr>,
      \<lparr>metadata = [key_page_label \<mapsto> []], score = None\<rparr>]"

definition sample_env :: "(pystr, nat, nat, pystr) env" where
  "sample_env =
     \<lparr>path_exists = (\<lambda>p. True),
      listdir = (\<lambda>p. Inr [of_ascii ''a.pdf'', of_ascii ''notes.txt'']),
      load_data = (\<lambda>p. Inr [of_ascii ''page one'']),
      from_documents = (\<lambda>docs. Inr (length docs)),
      as_query_engine = (\<lambda>idx k t. Inr k),
      chat_memory_from_defaults = (\<lambda>n. None),
      simple_chat_engine_importable = True,
      format_exc = exn_str,
      engine_query = (\<lambda>eng q. Inr sample_answer),
      retrieve = (\<lambda>idx k q. Inr sample_nodes),
      format_3f = (\<lambda>s. s),
      llm_complete = (\<lambda>p. Inr [31572, 12360]),
      agent_memory = (\<lambda>eng. Inl (Exception (of_ascii ''memory'')))\<rparr>"

definition ready_chatbot :: "(nat, nat) chatbot" where
  "ready_chatbot = \<lparr>pdf_folder = default_pdf_folder, agent = Some 3, index = Some 1\<rparr>"

section \<open>The matches of the pattern are the long maximal runs\<close>

lemma findall_english_skip:
  "length (takeWhile is_ascii_letter xs) < 3
   \<Longrightarrow> findall_english xs = findall_english (dropWhile is_ascii_letter xs)"
  by (induction xs) auto

lemma findall_english_letter_runs:
  "findall_english t = filter (\<lambda>r. 3 \<le> length r) (letter_runs t)"
proof (induction t rule: letter_runs.induct)
  case 1
  show ?case by simp
next
  case (2 c cs)
  show ?case
  proof (cases "is_ascii_letter c")
    case False
    with 2 show ?thesis by simp
  next
    case True
    note letter = this
    show ?thesis
    proof (cases "3 \<le> length (takeWhile is_ascii_letter (c # cs))")
      case True
      with letter 2 show ?thesis by simp
    next
      case False
      then have "findall_english (c # cs) = findall_english (dropWhile is_ascii_letter (c # cs))"
        by (intro findall_english_skip) simp
      with False letter 2 show ?thesis by simp
    qed
  qed
qed

lemma takeWhile_run:
  "list_all P r \<Longrightarrow> post = [] \<or> \<not> P (hd post) \<Longrightarrow> takeWhile P (r @ post) = r"
  by (cases post) (auto simp: list_all_iff takeWhile_append2 intro: takeWhile_eq_all_conv[THEN iffD2])

lemma dropWhile_run:
  "list_all P r \<Longrightarrow> post = [] \<or> \<not> P (hd post) \<Longrightarrow> dropWhile P (r @ post) = post"
  by (cases post) (auto simp: list_all_iff dropWhile_append2)

lemma letter_runs_sound:
  "r \<in> set (letter_runs t) \<Longrightarrow> \<exists>pre post. t = pre @ r @ post \<and> maximal_run pre r post"
proof (induction t rule: letter_runs.induct)
  case 1
  then show ?case by simp
next
  case (2 c cs)
  show ?case
  proof (cases "is_ascii_letter c")
    case False
    with 2 obtain pre post where "cs = pre @ r @ post" "maximal_run pre r post" by auto
    with False have "c # cs = (c # pre) @ r @ post \<and> maximal_run (c # pre) r post"
      by (auto simp: maximal_run_def)
    then show ?thesis by blast
  next
    case True
    let ?run = "takeWhile is_ascii_letter (c # cs)"
    let ?rest = "dropWhile is_ascii_letter cs"
    from True 2 consider "r = ?run" | "r \<in> set (letter_runs ?rest)" by auto
    then show ?thesis
    proof cases
      case 1
      have "c # cs = [] @ ?run @ ?rest" using True by simp
      moreover have "maximal_run [] ?run ?rest"
        using True hd_dropWhile[of is_ascii_letter cs]
        by (auto simp: maximal_run_def list_all_iff dest: set_takeWhileD)
      ultimately show ?thesis using 1 by blast
    next
      case 2
      with "2.IH"(1) True obtain pre post where
        d: "?rest = pre @ r @ post" and m: "maximal_run pre r post" by auto
      have "pre \<noteq> []"
      proof
        assume "pre = []"
        with d m have "?rest \<noteq> []" "is_ascii_letter (hd ?rest)"
          by (auto simp: maximal_run_def list_all_iff hd_append)
        then show False using hd_dropWhile[of is_ascii_letter cs] by simp
      qed
      with m have "maximal_run (?run @ pre) r post" by (simp add: maximal_run_def)
      moreover have "c # cs = (?run @ pre) @ r @ post"
        using True d takeWhile_dropWhile_id[of is_ascii_letter cs] by (metis append.assoc takeWhile.simps(2) append_Cons)
      ultimately show ?thesis by blast
    qed
  qed
qed

lemma letter_runs_complete:
  "t = pre @ r @ post \<Longrightarrow> maximal_run pre r post \<Longrightarrow> r \<in> set (letter_runs t)"
proof (induction t arbitrary: pre rule: letter_runs.induct)
  case 1
  then show ?case by (simp add: maximal_run_def)
next
  case (2 c cs)
  from "2.prems" have r: "r \<noteq> []" "list_all is_ascii_letter r"
    and post: "post = [] \<or> \<not> is_ascii_letter (hd post)"
    and pre: "pre = [] \<or> \<not> is_ascii_letter (last pre)"
    by (auto simp: maximal_run_def)
  show ?case
  proof (cases "is_ascii_letter c")
    case False
    have "pre \<noteq> []"
    proof
      assume "pre = []"
      with "2.prems"(1) r have "c = hd r" by (cases r) auto
      with r False show False by (cases r) auto
    qed
    then obtain pre' where pre': "pre = c # pre'" using "2.prems"(1) by (cases pre) auto
    with "2.prems"(1) have "cs = pre' @ r @ post" by simp
    moreover have "maximal_run pre' r post"
      using pre pre' r post by (auto simp: maximal_run_def split: if_splits)
    ultimately have "r \<in> set (letter_runs cs)" using "2.IH"(2) False by blast
    with False show ?thesis by simp
  next
    case True
    show ?thesis
    proof (cases "pre = []")
      case True
      with "2.prems"(1) have "takeWhile is_ascii_letter (c # cs) = r"
        using takeWhile_run[OF r(2) post] by simp
      with \<open>is_ascii_letter c\<close> show ?thesis by simp
    next
      case False
      with pre have nl: "\<not> is_ascii_letter (last pre)" by simp
      from False obtain pre' where pre': "pre = c # pre'" using "2.prems"(1) by (cases pre) auto
      from False nl have ex: "\<exists>x\<in>set pre. \<not> is_ascii_letter x" using last_in_set by blast
      then have ex': "\<exists>x\<in>set pre'. \<not> is_ascii_letter x" using pre' True by auto
      have cs: "cs = pre' @ r @ post" using "2.prems"(1) pre' by simp
      obtain x where x: "x \<in> set pre'" "\<not> is_ascii_letter x" using ex' by blast
      have dw: "dropWhile is_ascii_letter cs = dropWhile is_ascii_letter pre' @ r @ post"
        unfolding cs using x by (simp add: dropWhile_append1)
      have ne: "dropWhile is_ascii_letter pre' \<noteq> []" using x by (auto simp: dropWhile_eq_Nil_conv)
      have "last (dropWhile is_ascii_letter pre') = last pre'"
        using ne by (metis last_appendR takeWhile_dropWhile_id)
      moreover have "last pre' = last pre" using pre' x by auto
      ultimately have "maximal_run (dropWhile is_ascii_letter pre') r post"
        using r post nl ne by (simp add: maximal_run_def)
      with dw "2.IH"(1) True have "r \<in> set (letter_runs (dropWhile is_ascii_letter cs))" by blast
      with True show ?thesis by simp
    qed
  qed
qed


lemma findall_english_iff:
  "r \<in> set (findall_english t) \<longleftrightarrow>
     (\<exists>pre post. t = pre @ r @ post \<and> maximal_run pre r post \<and> 3 \<le> length r)"
  unfolding findall_english_letter_runs
  using letter_runs_sound letter_runs_complete by auto

lemma findall_english_letters:
  "r \<in> set (findall_english t) \<Longrightarrow> list_all is_ascii_letter r \<and> 3 \<le> length r"
  by (auto simp: findall_english_iff maximal_run_def)

lemma contains_english_iff:
  "contains_english t \<longleftrightarrow> (\<exists>r \<in> set (findall_english t). r \<notin> set japanese_exceptions)"
  by (auto simp: contains_english_def Let_def filter_empty_conv)

lemma contains_english_runs:
  "contains_english t \<longleftrightarrow>
     (\<exists>pre run post. t = pre @ run @ post \<and> maximal_run pre run post \<and> 3 \<le> length run
        \<and> run \<notin> set japanese_exceptions)"
proof
  assume "contains_english t"
  then obtain r where "r \<in> set (findall_english t)" "r \<notin> set japanese_exceptions"
    unfolding contains_english_iff by blast
  then show "\<exists>pre run post. t = pre @ run @ post \<and> maximal_run pre run post
      \<and> 3 \<le> length run \<and> run \<notin> set japanese_exceptions"
    unfolding findall_english_iff by blast
next
  assume "\<exists>pre run post. t = pre @ run @ post \<and> maximal_run pre run post
      \<and> 3 \<le> length run \<and> run \<notin> set japanese_exceptions"
  then obtain pre run post where
    "t = pre @ run @ post" "maximal_run pre run post" "3 \<le> length run"
    "run \<notin> set japanese_exceptions"
    by blast
  then have "run \<in> set (findall_english t)" "run \<notin> set japanese_exceptions"
    unfolding findall_english_iff by blast+
  then show "contains_english t"
    unfolding contains_english_iff by blast
qed

lemmas literal_defs =
  of_ascii_def exc_pdf_def exc_PDF_def exc_au_commerce_def exc_au_def exc_DC_def exc_API_def
  japanese_exceptions_def reduced_exceptions_def

lemma short_or_foreign_never_matched:
  "r \<in> set (findall_english t) \<Longrightarrow> r \<noteq> exc_au \<and> r \<noteq> exc_DC \<and> r \<noteq> exc_au_commerce"
  by (auto dest!: findall_english_letters simp: literal_defs is_ascii_letter_def)

section \<open>Claims about the query path and the language check\<close>

text \<open>
  Claim C7: a question asked before the agent is built returns the message that tells the
  user to press the PDF loading button; the only event is the error display, so no
  retrieval and no model call is made, and nothing is raised.
\<close>

theorem ask_before_initialization:
  "agent self = None \<Longrightarrow>
   ask_with_react env self question = (ret_agent_uninitialized, [StError msg_agent_uninitialized])
   \<and> filter is_call (snd (ask_with_react env self question)) = []"
  by (simp add: ask_with_react_def)

theorem ask_before_initialization_witness:
  "ask_with_react sample_env (init_chatbot default_pdf_folder) (of_ascii ''salary?'')
     = (ret_agent_uninitialized, [StError msg_agent_uninitialized])
   \<and> agent (init_chatbot default_pdf_folder :: (nat, nat) chatbot) = None"
  using ask_before_initialization
    [of "init_chatbot default_pdf_folder :: (nat, nat) chatbot" sample_env "of_ascii ''salary?''"]
  by (simp add: init_chatbot_def)

text \<open>
  Claim C9: the allow-list entries \<open>au\<close>, \<open>DC\<close> and the entry with Japanese characters
  never equal a match of the pattern, so the check gives the same result on every text
  with the allow-list cut down to \<open>pdf\<close>, \<open>PDF\<close> and \<open>API\<close>; the variants \<open>Pdf\<close> and
  \<open>api\<close>, which are not listed, count as English.
\<close>

theorem contains_english_reduced_allow_list:
  "contains_english t = contains_english_reduced t
   \<and> exc_au \<notin> set (findall_english t) \<and> exc_DC \<notin> set (findall_english t)
   \<and> exc_au_commerce \<notin> set (findall_english t)
   \<and> contains_english (of_ascii ''Pdf'') \<and> contains_english (of_ascii ''api'')"
proof -
  have "filter (\<lambda>m. m \<notin> set japanese_exceptions) (findall_english t)
      = filter (\<lambda>m. m \<notin> set reduced_exceptions) (findall_english t)"
    by (rule filter_cong)
      (auto dest!: short_or_foreign_never_matched simp: japanese_exceptions_def reduced_exceptions_def)
  then have "contains_english t = contains_english_reduced t"
    by (simp add: contains_english_def contains_english_reduced_def)
  moreover have "contains_english (of_ascii ''Pdf'')" "contains_english (of_ascii ''api'')"
    by (simp_all add: contains_english_def literal_defs is_ascii_letter_def)
  ultimately show ?thesis
    using short_or_foreign_never_matched[of _ t] by blast
qed

theorem contains_english_reduced_allow_list_witness:
  "contains_english (of_ascii ''au DC Pdf'') = contains_english_reduced (of_ascii ''au DC Pdf'')
   \<and> contains_english (of_ascii ''au DC Pdf'')"
  using contains_english_reduced_allow_list [of "of_ascii ''au DC Pdf''"]
  by (simp add: contains_english_def literal_defs is_ascii_letter_def)

text \<open>
  Claim C1: when every maximal run of three or more ASCII letters of the answer equals an
  entry of the allow-list (in particular when there is no such run), the filter returns
  the answer as it is and makes no call at all.
\<close>

theorem conformant_answer_unchanged:
  assumes "\<And>pre run post.
             t = pre @ run @ post \<Longrightarrow> maximal_run pre run post \<Longrightarrow> 3 \<le> length run
             \<Longrightarrow> run \<in> set japanese_exceptions"
  shows "force_japanese_response env t = (t, [])"
proof -
  from assms have "\<not> contains_english t"
    unfolding contains_english_runs by blast
  then show ?thesis by (simp add: force_japanese_response_def)
qed

theorem conformant_answer_unchanged_witness:
  "force_japanese_response sample_env sample_answer = (sample_answer, [])
   \<and> letter_runs sample_answer = [of_ascii ''PDF'', of_ascii ''au'']"
proof -
  have runs: "letter_runs sample_answer = [of_ascii ''PDF'', of_ascii ''au'']"
    by (simp add: sample_answer_def of_ascii_def is_ascii_letter_def)
  have "run \<in> set japanese_exceptions"
    if "sample_answer = pre @ run @ post" "maximal_run pre run post" "3 \<le> length run"
    for pre run post
  proof -
    from that(1,2) have "run \<in> set (letter_runs sample_answer)"
      by (rule letter_runs_complete)
    with that(3) show ?thesis
      by (auto simp: runs literal_defs)
  qed
  then have "force_japanese_response sample_env sample_answer = (sample_answer, [])"
    by (rule conformant_answer_unchanged)
  with runs show ?thesis by simp
qed

text \<open>
  Claim C2: an answer with a maximal run of three or more ASCII letters that is not an
  entry of the allow-list is classified as English; the filter then makes exactly one
  call to the language model, with the prompt that embeds the answer, and when the call
  returns, its result is the result of the filter, with nothing done to it.
\<close>

theorem nonconformant_answer_rewritten:
  assumes "t = pre @ run @ post" and "maximal_run pre run post" and "3 \<le> length run"
    and "run \<notin> set japanese_exceptions"
  shows "contains_english t
    \<and> filter is_call (snd (force_japanese_response env t))
        = [CallLlmComplete (translate_prompt_pre @ t @ translate_prompt_post)]
    \<and> (\<forall>out. llm_complete env (translate_prompt t) = Inr out
          \<longrightarrow> force_japanese_response env t
              = (out, [StSpinner msg_translating, CallLlmComplete (translate_prompt t)]))"
proof -
  from assms have english: "contains_english t"
    unfolding contains_english_runs by blast
  then show ?thesis
    by (cases "llm_complete env (translate_prompt t)")
      (simp_all add: force_japanese_response_def translate_prompt_def)
qed

theorem nonconformant_answer_rewritten_witness:
  "contains_english (of_ascii ''abc ABC'')
   \<and> force_japanese_response sample_env (of_ascii ''abc ABC'')
       = ([31572, 12360],
          [StSpinner msg_translating, CallLlmComplete (translate_prompt (of_ascii ''abc ABC''))])
   \<and> maximal_run [] (of_ascii ''abc'') (of_ascii '' ABC'')
   \<and> of_ascii ''abc'' \<notin> set japanese_exceptions"
proof -
  have d: "of_ascii ''abc ABC'' = [] @ of_ascii ''abc'' @ of_ascii '' ABC''"
    by (simp add: of_ascii_def)
  have m: "maximal_run [] (of_ascii ''abc'') (of_ascii '' ABC'')"
    by (simp add: maximal_run_def of_ascii_def is_ascii_letter_def)
  have l: "3 \<le> length (of_ascii ''abc'')"
    by (simp add: of_ascii_def)
  have n: "of_ascii ''abc'' \<notin> set japanese_exceptions"
    by (simp add: literal_defs)
  have out: "llm_complete sample_env (translate_prompt (of_ascii ''abc ABC'')) = Inr [31572, 12360]"
    by (simp add: sample_env_def)
  from nonconformant_answer_rewritten [OF d m l n, of sample_env] out m n
  show ?thesis by simp
qed

text \<open>
  Claim C3: when the call to the language model raises, the filter returns the answer it
  was given, its last event is the warning with the text of the exception, and the
  caller goes on: \<open>ask_with_react\<close> appends the citation block to that answer.
\<close>

theorem rewrite_failure_returns_original:
  assumes "contains_english t" and "llm_complete env (translate_prompt t) = Inl e"
  shows "force_japanese_response env t
      = (t, [StSpinner msg_translating, CallLlmComplete (translate_prompt t),
             StWarning (msg_translate_error_pre @ exn_str e)])
    \<and> (\<forall>eng question. agent self = Some eng \<and> engine_query env eng question = Inr t
          \<longrightarrow> fst (ask_with_react env self question)
              = t @ [10, 10] @ fst (get_source_info env self question))"
  using assms
  by (simp add: force_japanese_response_def ask_with_react_def split: prod.splits)

theorem rewrite_failure_returns_original_witness:
  "force_japanese_response
      (sample_env\<lparr>llm_complete := \<lambda>p. Inl (Exception (of_ascii ''timeout''))\<rparr>)
      (of_ascii ''abc ABC'')
    = (of_ascii ''abc ABC'',
       [StSpinner msg_translating, CallLlmComplete (translate_prompt (of_ascii ''abc ABC'')),
        StWarning (msg_translate_error_pre @ of_ascii ''timeout'')])
   \<and> contains_english (of_ascii ''abc ABC'')"
proof -
  let ?env = "sample_env\<lparr>llm_complete := \<lambda>p. Inl (Exception (of_ascii ''timeout''))\<rparr>"
  have english: "contains_english (of_ascii ''abc ABC'')"
    by (simp add: contains_english_def literal_defs is_ascii_letter_def)
  have raises: "llm_complete ?env (translate_prompt (of_ascii ''abc ABC''))
      = Inl (Exception (of_ascii ''timeout''))"
    by simp
  from rewrite_failure_returns_original [OF english raises] english
  show ?thesis by simp
qed

lemma fallback_search_cases:
  "(index self = None
      \<longrightarrow> fallback_search env self question
          = (msg_search_error_pre @ attr_err_as_query_engine, []))
   \<and> (\<forall>idx e. index self = Some idx
          \<and> as_query_engine env idx 5 JapaneseFallbackTemplate = Inl e
      \<longrightarrow> fallback_search env self question
          = (msg_search_error_pre @ exn_str e,
             [CallAsQueryEngine 5 JapaneseFallbackTemplate]))
   \<and> (\<forall>idx fallback_engine e. index self = Some idx
          \<and> as_query_engine env idx 5 JapaneseFallbackTemplate = Inr fallback_engine
          \<and> engine_query env fallback_engine question = Inl e
      \<longrightarrow> fallback_search env self question
          = (msg_search_error_pre @ exn_str e,
             [CallAsQueryEngine 5 JapaneseFallbackTemplate, CallQuery question]))
   \<and> (\<forall>idx fallback_engine response. index self = Some idx
          \<and> as_query_engine env idx 5 JapaneseFallbackTemplate = Inr fallback_engine
          \<and> engine_query env fallback_engine question = Inr response
      \<longrightarrow> fallback_search env self question
          = (direct_search_marker @ [10] @ fst (force_japanese_response env response)
               @ [10, 10] @ fst (get_source_info env self question),
             [CallAsQueryEngine 5 JapaneseFallbackTemplate, CallQuery question]
               @ snd (force_japanese_response env response)
               @ snd (get_source_info env self question)))"
  by (simp add: fallback_search_def split: prod.splits)

text \<open>
  Claim C4: when the query of the agent raises, with or without the iteration-limit
  signature in the text of the exception, \<open>ask_with_react\<close> runs the fallback path after
  one display (a warning with the signature, an error without): the query engine for the
  5 best matches with the fallback template is built over the index and asked the
  question. When this engine is built and its query returns, the answer is the
  direct-search marker, a newline, the response of that engine passed through the
  language filter, an empty line and the citation block. When the engine cannot be
  built, or its query raises, the answer is the search-error message with the text of
  the exception.
\<close>

theorem query_failure_runs_fallback:
  assumes "agent self = Some eng" and "engine_query env eng question = Inl e"
  shows "fst (ask_with_react env self question) = fst (fallback_search env self question)
    \<and> snd (ask_with_react env self question)
        = [StSpinner msg_analysing, CallQuery question,
           (if py_in sig_reached_max_iterations (exn_str e) \<or> py_in sig_max_iterations (exn_str e)
            then StWarning msg_react_slow
            else StError (msg_error_occurred_pre @ exn_str e))]
          @ snd (fallback_search env self question)
    \<and> (\<forall>idx fallback_engine response.
          index self = Some idx
          \<and> as_query_engine env idx 5 JapaneseFallbackTemplate = Inr fallback_engine
          \<and> engine_query env fallback_engine question = Inr response
          \<longrightarrow> fst (ask_with_react env self question)
                = direct_search_marker @ [10] @ fst (force_japanese_response env response)
                    @ [10, 10] @ fst (get_source_info env self question)
              \<and> filter is_call (snd (ask_with_react env self question))
                = [CallQuery question, CallAsQueryEngine 5 JapaneseFallbackTemplate,
                   CallQuery question]
                  @ filter is_call (snd (force_japanese_response env response))
                  @ filter is_call (snd (get_source_info env self question)))
    \<and> (\<forall>idx fallback_engine e'.
          index self = Some idx
          \<and> as_query_engine env idx 5 JapaneseFallbackTemplate = Inr fallback_engine
          \<and> engine_query env fallback_engine question = Inl e'
          \<longrightarrow> fst (ask_with_react env self question) = msg_search_error_pre @ exn_str e'
              \<and> filter is_call (snd (ask_with_react env self question))
                = [CallQuery question, CallAsQueryEngine 5 JapaneseFallbackTemplate,
                   CallQuery question])
    \<and> (\<forall>idx e'.
          index self = Some idx
          \<and> as_query_engine env idx 5 JapaneseFallbackTemplate = Inl e'
          \<longrightarrow> fst (ask_with_react env self question) = msg_search_error_pre @ exn_str e'
              \<and> filter is_call (snd (ask_with_react env self question))
                = [CallQuery question, CallAsQueryEngine 5 JapaneseFallbackTemplate])"
proof -
  have ask: "ask_with_react env self question
      = (fst (fallback_search env self question),
         [StSpinner msg_analysing, CallQuery question,
          (if py_in sig_reached_max_iterations (exn_str e) \<or> py_in sig_max_iterations (exn_str e)
           then StWarning msg_react_slow
           else StError (msg_error_occurred_pre @ exn_str e))]
         @ snd (fallback_search env self question))"
    using assms by (simp add: ask_with_react_def Let_def split: prod.splits)
  note fb = fallback_search_cases [of self env question]
  have returns: "fst (ask_with_react env self question)
                = direct_search_marker @ [10] @ fst (force_japanese_response env response)
                    @ [10, 10] @ fst (get_source_info env self question)
              \<and> filter is_call (snd (ask_with_react env self question))
                = [CallQuery question, CallAsQueryEngine 5 JapaneseFallbackTemplate,
                   CallQuery question]
                  @ filter is_call (snd (force_japanese_response env response))
                  @ filter is_call (snd (get_source_info env self question))"
    if c: "index self = Some idx
          \<and> as_query_engine env idx 5 JapaneseFallbackTemplate = Inr fallback_engine
          \<and> engine_query env fallback_engine question = Inr response"
    for idx fallback_engine response
  proof -
    from fb c have "fallback_search env self question
          = (direct_search_marker @ [10] @ fst (force_japanese_response env response)
               @ [10, 10] @ fst (get_source_info env self question),
             [CallAsQueryEngine 5 JapaneseFallbackTemplate, CallQuery question]
               @ snd (force_japanese_response env response)
               @ snd (get_source_info env self question))"
      by blast
    with ask show ?thesis by simp
  qed
  have query_raises: "fst (ask_with_react env self question) = msg_search_error_pre @ exn_str e'
              \<and> filter is_call (snd (ask_with_react env self question))
                = [CallQuery question, CallAsQueryEngine 5 JapaneseFallbackTemplate,
                   CallQuery question]"
    if c: "index self = Some idx
          \<and> as_query_engine env idx 5 JapaneseFallbackTemplate = Inr fallback_engine
          \<and> engine_query env fallback_engine question = Inl e'"
    for idx fallback_engine e'
  proof -
    from fb c have "fallback_search env self question
          = (msg_search_error_pre @ exn_str e',
             [CallAsQueryEngine 5 JapaneseFallbackTemplate, CallQuery question])"
      by blast
    with ask show ?thesis by simp
  qed
  have build_raises: "fst (ask_with_react env self question) = msg_search_error_pre @ exn_str e'
              \<and> filter is_call (snd (ask_with_react env self question))
                = [CallQuery question, CallAsQueryEngine 5 JapaneseFallbackTemplate]"
    if c: "index self = Some idx
          \<and> as_query_engine env idx 5 JapaneseFallbackTemplate = Inl e'"
    for idx e'
  proof -
    from fb c have "fallback_search env self question
          = (msg_search_error_pre @ exn_str e',
             [CallAsQueryEngine 5 JapaneseFallbackTemplate])"
      by blast
    with ask show ?thesis by simp
  qed
  from ask have "fst (ask_with_react env self question) = fst (fallback_search env self question)"
    "snd (ask_with_react env self question)
        = [StSpinner msg_analysing, CallQuery question,
           (if py_in sig_reached_max_iterations (exn_str e) \<or> py_in sig_max_iterations (exn_str e)
            then StWarning msg_react_slow
            else StError (msg_error_occurred_pre @ exn_str e))]
          @ snd (fallback_search env self question)"
    by simp_all
  with returns query_raises build_raises show ?thesis
    by (intro conjI) blast+
qed

text \<open>
  The witness: the agent raises with the iteration-limit signature, the fallback engine
  (the engine 5 of the sample world) answers, its answer has no English, and the
  retriever is asked for the citations.
\<close>

theorem query_failure_runs_fallback_witness:
  "fst (ask_with_react
         (sample_env\<lparr>engine_query :=
            \<lambda>eng q. if eng = 3 then Inl (Exception sig_max_iterations) else Inr [31572, 12360]\<rparr>)
         ready_chatbot (of_ascii ''salary?''))
    = direct_search_marker @ [10] @ [31572, 12360] @ [10, 10]
        @ fst (get_source_info sample_env ready_chatbot (of_ascii ''salary?''))
   \<and> filter is_call (snd (ask_with_react
         (sample_env\<lparr>engine_query :=
            \<lambda>eng q. if eng = 3 then Inl (Exception sig_max_iterations) else Inr [31572, 12360]\<rparr>)
         ready_chatbot (of_ascii ''salary?'')))
    = [CallQuery (of_ascii ''salary?''), CallAsQueryEngine 5 JapaneseFallbackTemplate,
       CallQuery (of_ascii ''salary?''), CallRetrieve 3 (of_ascii ''salary?'')]
   \<and> py_in sig_max_iterations (exn_str (Exception sig_max_iterations))"
proof -
  let ?env = "sample_env\<lparr>engine_query :=
    \<lambda>eng q. if eng = 3 then Inl (Exception sig_max_iterations) else Inr [31572, 12360]\<rparr>"
  let ?q = "of_ascii ''salary?''"
  have a: "agent ready_chatbot = Some 3"
    by (simp add: ready_chatbot_def)
  have q: "engine_query ?env 3 ?q = Inl (Exception sig_max_iterations)"
    by simp
  have c: "index ready_chatbot = Some 1
      \<and> as_query_engine ?env 1 5 JapaneseFallbackTemplate = Inr 5
      \<and> engine_query ?env 5 ?q = Inr [31572, 12360]"
    by (simp add: ready_chatbot_def sample_env_def)
  have f: "force_japanese_response ?env [31572, 12360] = ([31572, 12360], [])"
    by (simp add: force_japanese_response_def contains_english_def is_ascii_letter_def)
  have g: "get_source_info ?env ready_chatbot ?q
      = (fst (get_source_info sample_env ready_chatbot ?q), [CallRetrieve 3 ?q])"
    by (simp add: get_source_info_def ready_chatbot_def sample_env_def sample_nodes_def
        source_line_def)
  have sig: "py_in sig_max_iterations (exn_str (Exception sig_max_iterations))"
    by (simp add: sig_max_iterations_def of_ascii_def)
  from query_failure_runs_fallback [OF a q] c
  have "fst (ask_with_react ?env ready_chatbot ?q)
          = direct_search_marker @ [10] @ fst (force_japanese_response ?env [31572, 12360])
              @ [10, 10] @ fst (get_source_info ?env ready_chatbot ?q)
        \<and> filter is_call (snd (ask_with_react ?env ready_chatbot ?q))
          = [CallQuery ?q, CallAsQueryEngine 5 JapaneseFallbackTemplate, CallQuery ?q]
            @ filter is_call (snd (force_japanese_response ?env [31572, 12360]))
            @ filter is_call (snd (get_source_info ?env ready_chatbot ?q))"
    by blast
  with f g sig show ?thesis by simp
qed

section \<open>Claims about the citation block\<close>

lemma str_nat_digit: "n < 10 \<Longrightarrow> str_nat n = [48 + n]"
  by (simp add: str_nat.simps)

lemma source_line_citation_line: "source_line env (i, node) = citation_line env i node"
  by (simp add: source_line_def citation_line_def document_name_def page_suffix_def
      relevance_suffix_def Let_def split: option.splits)

lemma page_suffix_present:
  "page_suffix node \<noteq> [] \<longleftrightarrow> (\<exists>l. metadata node key_page_label = Some l \<and> l \<noteq> [])"
  by (simp add: page_suffix_def page_pre_def split: option.splits)

lemma relevance_suffix_present: "relevance_suffix env node \<noteq> [] \<longleftrightarrow> score node \<noteq> None"
  by (simp add: relevance_suffix_def relevance_pre_def split: option.splits)

text \<open>
  Claim C5: with no retrieved node the attributor returns the message that no reference
  document was found. Otherwise it returns the header line and, joined by newlines, one
  line for each node in the order of retrieval: the rank counted from 1, the document
  name, the page suffix exactly when the metadata has a non-empty page label, and the
  relevance suffix with the formatted score exactly when the node has a score. The
  retriever is asked for the 3 best nodes.
\<close>

theorem source_info_block:
  assumes "index self = Some idx" and "retrieve env idx 3 question = Inr nodes"
  shows "(nodes = [] \<longrightarrow> fst (get_source_info env self question) = msg_no_sources)
    \<and> (nodes \<noteq> [] \<longrightarrow>
         (\<exists>lines. fst (get_source_info env self question) = sources_header @ join [10] lines
            \<and> length lines = length nodes
            \<and> (\<forall>k < length nodes. lines ! k = citation_line env (Suc k) (nodes ! k))))
    \<and> (\<forall>node. (page_suffix node \<noteq> [])
                = (\<exists>l. metadata node key_page_label = Some l \<and> l \<noteq> []))
    \<and> (\<forall>node. (relevance_suffix env node \<noteq> []) = (score node \<noteq> None))
    \<and> snd (get_source_info env self question) = [CallRetrieve 3 question]"
proof -
  let ?lines = "map (source_line env) (enumerate 1 nodes)"
  have "length ?lines = length nodes"
    by simp
  moreover have "\<forall>k < length nodes. ?lines ! k = citation_line env (Suc k) (nodes ! k)"
    by (simp add: nth_enumerate_eq source_line_citation_line)
  moreover have "nodes \<noteq> []
      \<Longrightarrow> fst (get_source_info env self question) = sources_header @ join [10] ?lines"
    using assms by (simp add: get_source_info_def)
  ultimately have "nodes \<noteq> [] \<longrightarrow>
         (\<exists>lines. fst (get_source_info env self question) = sources_header @ join [10] lines
            \<and> length lines = length nodes
            \<and> (\<forall>k < length nodes. lines ! k = citation_line env (Suc k) (nodes ! k)))"
    by blast
  moreover have "nodes = [] \<longrightarrow> fst (get_source_info env self question) = msg_no_sources"
    using assms by (simp add: get_source_info_def)
  moreover have "snd (get_source_info env self question) = [CallRetrieve 3 question]"
    using assms by (simp add: get_source_info_def)
  ultimately show ?thesis
    by (simp only: page_suffix_present relevance_suffix_present simp_thms)
qed

theorem source_info_block_witness:
  "fst (get_source_info sample_env ready_chatbot (of_ascii ''salary?''))
     = sources_header
       @ of_ascii ''1. a.pdf'' @ page_pre @ of_ascii ''7'' @ page_post
       @ relevance_pre @ of_ascii ''0.812''
       @ [10] @ of_ascii ''2. '' @ unknown_document
   \<and> retrieve sample_env 1 3 (of_ascii ''salary?'') = Inr sample_nodes
   \<and> length sample_nodes = 2"
proof -
  let ?q = "of_ascii ''salary?''"
  have i: "index ready_chatbot = Some 1"
    by (simp add: ready_chatbot_def)
  have r: "retrieve sample_env 1 3 ?q = Inr sample_nodes"
    by (simp add: sample_env_def)
  have n: "sample_nodes \<noteq> []" "length sample_nodes = 2"
    by (simp_all add: sample_nodes_def)
  from source_info_block [OF i r] n obtain lines where
    out: "fst (get_source_info sample_env ready_chatbot ?q) = sources_header @ join [10] lines"
    and len: "length lines = 2"
    and nth: "\<forall>k < 2. lines ! k = citation_line sample_env (Suc k) (sample_nodes ! k)"
    by auto
  from len have ab: "lines = [lines ! 0, lines ! 1]"
    by (simp add: list_eq_iff_nth_eq less_Suc_eq numeral_2_eq_2)
  define a where "a = lines ! 0"
  define b where "b = lines ! 1"
  have keys: "key_file_name \<noteq> key_page_label"
    by (simp add: key_file_name_def key_page_label_def of_ascii_def)
  from nth have "a = citation_line sample_env 1 (sample_nodes ! 0)"
    by (simp add: a_def)
  then have a: "a = of_ascii ''1. a.pdf'' @ page_pre @ of_ascii ''7'' @ page_post
      @ relevance_pre @ of_ascii ''0.812''"
    using keys
    by (simp add: citation_line_def sample_nodes_def document_name_def page_suffix_def
        relevance_suffix_def sample_env_def str_nat_digit rank_sep_def of_ascii_def)
  from nth have "b = citation_line sample_env 2 (sample_nodes ! 1)"
    by (simp add: b_def numeral_2_eq_2)
  then have b: "b = of_ascii ''2. '' @ unknown_document"
    using keys
    by (simp add: citation_line_def sample_nodes_def document_name_def page_suffix_def
        relevance_suffix_def sample_env_def str_nat_digit rank_sep_def of_ascii_def)
  from ab have "join [10] lines = a @ [10] @ b"
    by (metis a_def b_def join.simps(2,3))
  with out a b r n show ?thesis by simp
qed

section \<open>Claims about the session\<close>

lemma create_react_agent_cases:
  assumes "create_react_agent env self = (ok, self', evs)"
  shows "(ok \<longrightarrow> (\<exists>idx eng. index self = Some idx
              \<and> as_query_engine env idx 3 JapaneseTemplate = Inr eng
              \<and> chat_memory_from_defaults env 1500 = None
              \<and> self' = self\<lparr>agent := Some eng\<rparr>))
       \<and> (\<not> ok \<longrightarrow> self' = self \<and> (\<exists>m. StError m \<in> set evs))"
  using assms
  by (auto simp: create_react_agent_def create_agent_failure_def
      split: option.splits sum.splits)


lemma load_pdfs_with_react_built:
  assumes "path_exists env (pdf_folder self)" and "listdir env (pdf_folder self) = Inr files"
    and "filter (\<lambda>f. endswith f dot_pdf) files \<noteq> []"
    and "load_data env (pdf_folder self) = Inr docs" and "from_documents env docs = Inr idx"
    and "create_react_agent env (self\<lparr>index := Some idx\<rparr>) = (ok, self', evs3)"
  shows "\<exists>evs2. load_pdfs_with_react env self = (ok, self', evs2 @ evs3)"
proof -
  from assms(3) have "(filter (\<lambda>f. endswith f dot_pdf) files = []) = False"
    by simp
  with assms(1,2,4,5,6) show ?thesis
    unfolding load_pdfs_with_react_def Let_def
    by (simp del: append_assoc add: append_assoc [symmetric])
qed

lemma load_pdfs_with_react_cases:
  assumes "load_pdfs_with_react env self = (ok, self', evs)"
  shows "(ok \<longrightarrow> path_exists env (pdf_folder self)
            \<and> (\<exists>files docs idx eng. listdir env (pdf_folder self) = Inr files
                 \<and> filter (\<lambda>f. endswith f dot_pdf) files \<noteq> []
                 \<and> load_data env (pdf_folder self) = Inr docs
                 \<and> from_documents env docs = Inr idx
                 \<and> as_query_engine env idx 3 JapaneseTemplate = Inr eng
                 \<and> chat_memory_from_defaults env 1500 = None
                 \<and> self' = self\<lparr>index := Some idx, agent := Some eng\<rparr>))
       \<and> (\<not> ok \<longrightarrow> (\<exists>m. StError m \<in> set evs) \<and> agent self' = agent self
            \<and> pdf_folder self' = pdf_folder self
            \<and> (self' = self \<or> (\<exists>idx. self' = self\<lparr>index := Some idx\<rparr>)))"
proof (cases "path_exists env (pdf_folder self)")
  case False
  with assms have "ok = False" "self' = self"
    "evs = [StError (msg_folder_not_found @ pdf_folder self)]"
    by (auto simp: load_pdfs_with_react_def)
  then show ?thesis by simp
next
  case exists: True
  show ?thesis
  proof (cases "listdir env (pdf_folder self)")
    case (Inl e)
    with assms exists have "ok = False" "self' = self"
      "evs = [CallListdir (pdf_folder self), StError (msg_error_pre @ exn_str e)]"
      by (auto simp: load_pdfs_with_react_def)
    then show ?thesis by simp
  next
    case files: (Inr files)
    show ?thesis
    proof (cases "filter (\<lambda>f. endswith f dot_pdf) files = []")
      case True
      with assms exists files have "ok = False" "self' = self"
        "evs = [CallListdir (pdf_folder self), StError msg_no_pdf_files]"
        by (auto simp: load_pdfs_with_react_def)
      then show ?thesis by simp
    next
      case pdfs: False
      show ?thesis
      proof (cases "load_data env (pdf_folder self)")
        case (Inl e)
        with assms exists files pdfs have "ok = False" "self' = self"
          "StError (msg_error_pre @ exn_str e) \<in> set evs"
          unfolding load_pdfs_with_react_def Let_def by auto
        then show ?thesis by auto
      next
        case docs: (Inr docs)
        show ?thesis
        proof (cases "from_documents env docs")
          case (Inl e)
          with assms exists files pdfs docs have "ok = False" "self' = self"
            "StError (msg_error_pre @ exn_str e) \<in> set evs"
            unfolding load_pdfs_with_react_def Let_def by auto
          then show ?thesis by auto
        next
          case idx: (Inr idx)
          obtain ok3 self3 evs3 where
            c: "create_react_agent env (self\<lparr>index := Some idx\<rparr>) = (ok3, self3, evs3)"
            by (metis prod_cases3)
          from load_pdfs_with_react_built [OF exists files pdfs docs idx c] assms
          obtain evs2 where r: "ok = ok3" "self' = self3" "evs = evs2 @ evs3"
            by auto
          note a = create_react_agent_cases [OF c]
          show ?thesis
          proof (cases ok3)
            case True
            with a obtain eng where "as_query_engine env idx 3 JapaneseTemplate = Inr eng"
              "chat_memory_from_defaults env 1500 = None"
              "self3 = self\<lparr>index := Some idx, agent := Some eng\<rparr>"
              by auto
            with True r exists files pdfs docs idx show ?thesis by blast
          next
            case False
            with a have "self3 = self\<lparr>index := Some idx\<rparr>" "\<exists>m. StError m \<in> set evs3"
              by auto
            with False r show ?thesis by auto
          qed
        qed
      qed
    qed
  qed
qed









lemmas sample_run_defs =
  press_initialize_def load_pdfs_with_react_def create_react_agent_def create_agent_failure_def
  sample_env_def init_session_def init_chatbot_def ready_chatbot_def endswith_def dot_pdf_def
  default_pdf_folder_def of_ascii_def Let_def








section \<open>Claims about the object in every reachable state\<close>

lemma apply_call_invariant:
  assumes "agent self \<noteq> None \<longrightarrow> index self \<noteq> None"
  shows "agent (apply_call c self) \<noteq> None \<longrightarrow> index (apply_call c self) \<noteq> None"
proof (cases c)
  case (LoadPdfs env)
  obtain ok self' evs where l: "load_pdfs_with_react env self = (ok, self', evs)"
    by (metis prod_cases3)
  from load_pdfs_with_react_cases [OF l] assms have "agent self' \<noteq> None \<longrightarrow> index self' \<noteq> None"
    by (cases ok) auto
  with LoadPdfs l show ?thesis by simp
next
  case (Ask env question)
  with assms show ?thesis by simp
next
  case (Rebuild env)
  obtain ok self' evs where l: "create_react_agent env self = (ok, self', evs)"
    by (metis prod_cases3)
  from create_react_agent_cases [OF l] assms have "agent self' \<noteq> None \<longrightarrow> index self' \<noteq> None"
    by (cases ok) auto
  with Rebuild l show ?thesis by simp
qed

lemma run_calls_invariant:
  "agent self \<noteq> None \<longrightarrow> index self \<noteq> None
   \<Longrightarrow> agent (run_calls cs self) \<noteq> None \<longrightarrow> index (run_calls cs self) \<noteq> None"
proof (induction cs arbitrary: self)
  case Nil
  then show ?case by simp
next
  case (Cons c cs)
  from Cons.prems have "agent (apply_call c self) \<noteq> None \<longrightarrow> index (apply_call c self) \<noteq> None"
    by (rule apply_call_invariant)
  then show ?case
    using Cons.IH by simp
qed

text \<open>
  Claim C10: after the construction and any sequence of document loadings, questions and
  engine rebuildings, an object with an agent has an index. So when \<open>ask_with_react\<close>
  reaches \<open>_fallback_search\<close>, which it does only with an agent, the first thing that
  happens there is the call of \<open>as_query_engine\<close> on that index, not on \<open>None\<close>.
\<close>

theorem agent_implies_index:
  assumes "agent (run_calls cs (init_chatbot folder)) = Some eng"
  shows "\<exists>idx. index (run_calls cs (init_chatbot folder)) = Some idx
    \<and> take 1 (snd (fallback_search env (run_calls cs (init_chatbot folder)) question))
        = [CallAsQueryEngine 5 JapaneseFallbackTemplate]"
proof -
  let ?self = "run_calls cs (init_chatbot folder)"
  have "agent (init_chatbot folder) \<noteq> None \<longrightarrow> index (init_chatbot folder) \<noteq> None"
    by (simp add: init_chatbot_def)
  then have "agent ?self \<noteq> None \<longrightarrow> index ?self \<noteq> None"
    by (rule run_calls_invariant)
  with assms obtain idx where idx: "index ?self = Some idx"
    by auto
  then have "take 1 (snd (fallback_search env ?self question))
      = [CallAsQueryEngine 5 JapaneseFallbackTemplate]"
    by (simp add: fallback_search_def split: sum.splits prod.splits)
  with idx show ?thesis by simp
qed

theorem agent_implies_index_witness:
  "index (run_calls [LoadPdfs sample_env, Ask sample_env (of_ascii ''salary?''), Rebuild sample_env]
            (init_chatbot default_pdf_folder)) = Some 1
   \<and> agent (run_calls [LoadPdfs sample_env, Ask sample_env (of_ascii ''salary?''), Rebuild sample_env]
            (init_chatbot default_pdf_folder)) = Some 3"
proof -
  have r: "run_calls [LoadPdfs sample_env, Ask sample_env (of_ascii ''salary?''), Rebuild sample_env]
        (init_chatbot default_pdf_folder) = ready_chatbot"
    by (simp add: sample_run_defs)
  then have a: "agent (run_calls
        [LoadPdfs sample_env, Ask sample_env (of_ascii ''salary?''), Rebuild sample_env]
        (init_chatbot default_pdf_folder)) = Some 3"
    by (simp add: ready_chatbot_def)
  from agent_implies_index [OF a, of sample_env "[]"] a r show ?thesis
    by (simp add: ready_chatbot_def)
qed

end
